theory Spec2Isabelle
  imports Main "HOL-Library.Word" "HOL-Library.Sublist"
begin

section \<open>JavaScript values used by main.js\<close>

text \<open>
  A JavaScript string is a sequence of 16-bit code units. A literal of the source is
  written \<open>js ''...''\<close>; every literal of main.js is ASCII.
\<close>

type_synonym jsstr = "16 word list"

definition js :: "string \<Rightarrow> jsstr" where
  "js cs = map of_char cs"

text \<open>
  \<open>String.prototype.trim\<close> strips the WhiteSpace and LineTerminator code points of
  ECMAScript from both ends: TAB, LF, VT, FF, CR, SPACE, NBSP, U+1680, U+2000 to U+200A,
  U+2028, U+2029, U+202F, U+205F, U+3000 and U+FEFF.
\<close>

definition is_space :: "16 word \<Rightarrow> bool" where
  "is_space c =
     (c = 0x0009 \<or> c = 0x000A \<or> c = 0x000B \<or> c = 0x000C \<or> c = 0x000D \<or> c = 0x0020 \<or>
      c = 0x00A0 \<or> c = 0x1680 \<or> (0x2000 \<le> c \<and> c \<le> 0x200A) \<or> c = 0x2028 \<or>
      c = 0x2029 \<or> c = 0x202F \<or> c = 0x205F \<or> c = 0x3000 \<or> c = 0xFEFF)"

definition trim :: "jsstr \<Rightarrow> jsstr" where
  "trim s = rev (dropWhile is_space (rev (dropWhile is_space s)))"

text \<open>
  The values a property read of main.js can produce: \<open>undefined\<close>, a string, or an
  object. The only objects that occur are the members of \<open>Object.prototype\<close>, which
  every object literal inherits; \<open>Obj n\<close> is the member inherited under the name \<open>n\<close>.
\<close>

datatype jsval = Undefined | Str jsstr | Obj jsstr

text \<open>Truthiness: \<open>undefined\<close> and the empty string are falsy, objects are truthy.\<close>

fun truthy :: "jsval \<Rightarrow> bool" where
  "truthy Undefined = False"
| "truthy (Str s) = (s \<noteq> [])"
| "truthy (Obj n) = True"

text \<open>\<open>a || b\<close> on values that are already evaluated (both operands are pure here).\<close>

definition js_or :: "jsval \<Rightarrow> jsval \<Rightarrow> jsval" where
  "js_or a b = (if truthy a then a else b)"

text \<open>The property names of \<open>Object.prototype\<close> (ECMAScript, with Annex B).\<close>

definition Object_prototype :: "jsstr list" where
  "Object_prototype =
     [js ''constructor'', js ''hasOwnProperty'', js ''isPrototypeOf'',
      js ''propertyIsEnumerable'', js ''toLocaleString'', js ''toString'', js ''valueOf'',
      js ''__proto__'', js ''__defineGetter__'', js ''__defineSetter__'',
      js ''__lookupGetter__'', js ''__lookupSetter__'']"

text \<open>
  \<open>obj[code]\<close> on an object literal with the given own properties: an own property
  first, then the prototype chain, else \<open>undefined\<close>.
\<close>

definition get_prop :: "(jsstr \<times> jsstr) list \<Rightarrow> jsstr \<Rightarrow> jsval" where
  "get_prop own code =
     (case map_of own code of
        Some v \<Rightarrow> Str v
      | None \<Rightarrow> if code \<in> set Object_prototype then Obj code else Undefined)"

text \<open>
  \<open>ToString\<close>, applied by \<open>String.prototype.startsWith\<close> to its argument. The
  prototype object prints as \<open>[object Object]\<close>; a built-in function prints its name
  in the native-code form (the member \<open>constructor\<close> is the function \<open>Object\<close>).
\<close>

definition to_string :: "jsval \<Rightarrow> jsstr" where
  "to_string v =
     (case v of
        Undefined \<Rightarrow> js ''undefined''
      | Str s \<Rightarrow> s
      | Obj n \<Rightarrow>
          if n = js ''__proto__'' then js ''[object Object]''
          else js ''function '' @ (if n = js ''constructor'' then js ''Object'' else n)
               @ js ''() { [native code] }'')"

section \<open>The language tables\<close>

definition mapLangCode :: "jsstr \<Rightarrow> jsval" where
  "mapLangCode code =
     (let map = [(js ''en'', js ''en-US''), (js ''es'', js ''es-ES''),
                 (js ''hi'', js ''hi-IN''), (js ''ta'', js ''ta-IN''),
                 (js ''auto'', js ''en-US'')]
      in js_or (get_prop map code) (Str (js ''en-US'')))"

definition mapLocaleFromCode :: "jsstr \<Rightarrow> jsval" where
  "mapLocaleFromCode code =
     (let m = [(js ''en'', js ''en''), (js ''es'', js ''es''),
               (js ''hi'', js ''hi''), (js ''ta'', js ''ta'')]
      in js_or (get_prop m code) (Str (js ''en'')))"

section \<open>The page state\<close>

text \<open>
  One entry of \<open>event.results\<close>: the transcript of its first alternative
  (\<open>results[i][0].transcript\<close>) and its \<open>isFinal\<close> flag.
\<close>

record result =
  transcript :: jsstr
  isFinal :: bool

text \<open>The body of the POST to \<open>/translate\<close>.\<close>

record request =
  req_text :: jsstr
  req_source :: jsstr
  req_target :: jsstr

text \<open>
  The parsed body of a translation response, with the fields of the service's interface:
  each is absent or a string.
\<close>

record response =
  resp_error :: "jsstr option"
  resp_detail :: "jsstr option"
  resp_translated :: "jsstr option"

definition field :: "jsstr option \<Rightarrow> jsval" where
  "field x = (case x of None \<Rightarrow> Undefined | Some v \<Rightarrow> Str v)"

text \<open>
  How the two awaits of \<open>sendForTranslation\<close> end: with a parsed body, or with an
  exception (\<open>fetch\<close> rejected, \<open>resp.json()\<close> rejected, or the body was \<open>null\<close>
  and reading \<open>j.error\<close> threw). \<open>Failure d\<close> carries the exception as the string
  that \<open>"Network error: " + err\<close> appends.
\<close>

datatype outcome = Response response | Failure jsstr

record voice =
  voice_name :: jsstr
  voice_lang :: jsstr

record utterance =
  utter_text :: jsstr
  utter_voice :: "voice option"
  utter_rate :: nat

text \<open>
  \<open>window.speechSynthesis\<close>: the voices \<open>getVoices()\<close> reports, the utterance queue
  (its head is the one being spoken; \<open>speak\<close> appends, \<open>cancel\<close> empties it) and the
  calls made so far, oldest first.
\<close>

datatype synth_call = Cancel | Speak utterance

record synthesis =
  voices :: "voice list"
  queue :: "utterance list"
  calls :: "synth_call list"

text \<open>
  The recognition object: its \<open>lang\<close> attribute (the value assigned to it) and whether
  \<open>start()\<close> has been called with no end event since.
\<close>

record recog =
  lang :: jsval
  started :: bool

datatype error = TypeError | InvalidStateError

text \<open>
  The globals of main.js, the DOM properties it reads and writes, and the traces of its
  calls to the outside: \<open>fetch\<close>, \<open>alert\<close>, \<open>console.error\<close>, and the exceptions
  that leave a handler uncaught. \<open>recognition\<close> is \<open>None\<close> for the source's \<open>null\<close>,
  \<open>speechSynthesis\<close> is \<open>None\<close> when \<open>"speechSynthesis" in window\<close> is false.
\<close>

record state =
  recognition :: "recog option"
  finalTranscript :: jsstr
  origArea_value :: jsstr
  translatedDiv_textContent :: jsstr
  startBtn_disabled :: bool
  stopBtn_disabled :: bool
  playBtn_disabled :: bool
  sourceLang_value :: jsstr
  targetLang_value :: jsstr
  fetches :: "request list"
  speechSynthesis :: "synthesis option"
  alerts :: "jsstr list"
  console_errors :: nat
  uncaught :: "error list"

section \<open>The handlers\<close>

subsection \<open>recognition.onresult\<close>

text \<open>
  The \<open>for\<close> loop, from index \<open>i\<close>, on the pair of the global \<open>finalTranscript\<close> and
  the local \<open>interim\<close>.
\<close>

function onresult_loop :: "nat \<Rightarrow> result list \<Rightarrow> jsstr \<times> jsstr \<Rightarrow> jsstr \<times> jsstr" where
  "onresult_loop i results (ft, interim) =
     (if i < length results then
        (let t = transcript (results ! i) in
         if isFinal (results ! i)
         then onresult_loop (i + 1) results (ft @ t @ js '' '', interim)
         else onresult_loop (i + 1) results (ft, interim @ t))
      else (ft, interim))"
  by pat_completeness auto
termination
  by (relation "measure (\<lambda>(i, results, acc). length results - i)") auto

text \<open>The value of the local \<open>interim\<close> when the loop is over.\<close>

definition onresult_interim :: "nat \<Rightarrow> result list \<Rightarrow> state \<Rightarrow> jsstr" where
  "onresult_interim resultIndex results s =
     snd (onresult_loop resultIndex results (finalTranscript s, []))"

definition recognition_onresult :: "nat \<Rightarrow> result list \<Rightarrow> state \<Rightarrow> state" where
  "recognition_onresult resultIndex results s =
     (let (ft, interim) = onresult_loop resultIndex results (finalTranscript s, [])
      in s\<lparr>finalTranscript := ft, origArea_value := trim (ft @ interim)\<rparr>)"

definition recognition_onerror :: "state \<Rightarrow> state" where
  "recognition_onerror s = s\<lparr>console_errors := Suc (console_errors s)\<rparr>"

subsection \<open>sendForTranslation\<close>

text \<open>
  An async function runs up to its first \<open>await\<close> inside the caller:
  \<open>sendForTranslation_begin\<close> is that part, ending with the call of \<open>fetch\<close>.
  \<open>sendForTranslation_resume\<close> is the rest, run when the awaits settle; the state is
  not touched between the two awaits.
\<close>

definition sendForTranslation_begin :: "jsstr \<Rightarrow> state \<Rightarrow> state" where
  "sendForTranslation_begin txt s =
     s\<lparr>translatedDiv_textContent := js ''Translating...'',
       playBtn_disabled := True,
       fetches := fetches s @
         [\<lparr>req_text = txt, req_source = sourceLang_value s, req_target = targetLang_value s\<rparr>]\<rparr>"

definition sendForTranslation_resume :: "outcome \<Rightarrow> state \<Rightarrow> state" where
  "sendForTranslation_resume oc s =
     (case oc of
        Response j \<Rightarrow>
          if truthy (field (resp_error j)) then
            s\<lparr>translatedDiv_textContent :=
                js ''Error: '' @ to_string (js_or (field (resp_detail j)) (field (resp_error j)))\<rparr>
          else
            s\<lparr>translatedDiv_textContent :=
                to_string (js_or (field (resp_translated j)) (Str (js ''(no translation)''))),
              playBtn_disabled := False\<rparr>
      | Failure err \<Rightarrow>
          s\<lparr>translatedDiv_textContent := js ''Network error: '' @ err\<rparr>)"

text \<open>A call whose awaits settle before any other handler runs.\<close>

definition sendForTranslation :: "jsstr \<Rightarrow> outcome \<Rightarrow> state \<Rightarrow> state" where
  "sendForTranslation txt oc s = sendForTranslation_resume oc (sendForTranslation_begin txt s)"

subsection \<open>recognition.onend\<close>

definition recognition_onend :: "state \<Rightarrow> state" where
  "recognition_onend s =
     (let s1 = s\<lparr>startBtn_disabled := False, stopBtn_disabled := True\<rparr>
      in if trim (origArea_value s1) \<noteq> []
         then sendForTranslation_begin (trim (origArea_value s1)) s1
         else s1)"

subsection \<open>The buttons\<close>

text \<open>
  \<open>recognition.lang = ...\<close> throws a TypeError when \<open>recognition\<close> is \<open>null\<close>, and
  \<open>recognition.start()\<close> throws an InvalidStateError when recognition is already
  started; the assignments made before the exception stay.
\<close>

definition startBtn_onclick :: "state \<Rightarrow> state" where
  "startBtn_onclick s =
     (let s1 = s\<lparr>finalTranscript := [], origArea_value := [],
                 translatedDiv_textContent := js ''Translating...''\<rparr>
      in case recognition s1 of
           None \<Rightarrow> s1\<lparr>uncaught := uncaught s1 @ [TypeError]\<rparr>
         | Some r \<Rightarrow>
             (let r1 = r\<lparr>lang := js_or (mapLangCode (sourceLang_value s1)) (Str (js ''en-US''))\<rparr>;
                  s2 = s1\<lparr>recognition := Some r1\<rparr>
              in if started r1 then s2\<lparr>uncaught := uncaught s2 @ [InvalidStateError]\<rparr>
                 else s2\<lparr>recognition := Some (r1\<lparr>started := True\<rparr>),
                         startBtn_disabled := True, stopBtn_disabled := False\<rparr>))"

text \<open>\<open>recognition.stop()\<close> only asks the provider to end; the end event comes later.\<close>

definition stopBtn_onclick :: "state \<Rightarrow> state" where
  "stopBtn_onclick s =
     (case recognition s of
        None \<Rightarrow> s\<lparr>uncaught := uncaught s @ [TypeError]\<rparr>
      | Some r \<Rightarrow> s\<lparr>stopBtn_disabled := True\<rparr>)"

definition speakText :: "jsstr \<Rightarrow> jsstr \<Rightarrow> state \<Rightarrow> state" where
  "speakText txt lng s =
     (case speechSynthesis s of
        None \<Rightarrow> s\<lparr>alerts := alerts s @ [js ''SpeechSynthesis not supported in this browser.'']\<rparr>
      | Some sy \<Rightarrow>
          (let utter = \<lparr>utter_text = txt, utter_voice = None, utter_rate = 1\<rparr>;
               utter1 =
                 (if voices sy \<noteq> [] then
                    (case find (\<lambda>x. voice_lang x \<noteq> [] \<and>
                                     prefix (to_string (mapLocaleFromCode lng)) (voice_lang x))
                               (voices sy) of
                       Some v \<Rightarrow> utter\<lparr>utter_voice := Some v\<rparr>
                     | None \<Rightarrow> utter)
                  else utter);
               utter2 = utter1\<lparr>utter_rate := 1\<rparr>;
               sy1 = sy\<lparr>queue := [], calls := calls sy @ [Cancel]\<rparr>;
               sy2 = sy1\<lparr>queue := queue sy1 @ [utter2], calls := calls sy1 @ [Speak utter2]\<rparr>
           in s\<lparr>speechSynthesis := Some sy2\<rparr>))"

definition playBtn_onclick :: "state \<Rightarrow> state" where
  "playBtn_onclick s =
     (let t = translatedDiv_textContent s
      in if t = [] then s else speakText t (targetLang_value s) s)"

section \<open>Events\<close>

text \<open>
  Everything that makes main.js run after the page has loaded: a click on one of the
  three buttons, a result, error or end event of the recognition object, and the
  settling of an outstanding translation request. The provider fires the end event
  when recognition is over, so \<open>start()\<close> is legal again inside \<open>onend\<close>.
\<close>

datatype event =
  StartClick | StopClick | PlayClick
  | Result nat "result list" | RecError | End
  | Settled outcome

fun step :: "event \<Rightarrow> state \<Rightarrow> state" where
  "step StartClick s = startBtn_onclick s"
| "step StopClick s = stopBtn_onclick s"
| "step PlayClick s = playBtn_onclick s"
| "step (Result resultIndex results) s = recognition_onresult resultIndex results s"
| "step RecError s = recognition_onerror s"
| "step End s =
     recognition_onend (s\<lparr>recognition := map_option (\<lambda>r. r\<lparr>started := False\<rparr>) (recognition s)\<rparr>)"
| "step (Settled oc) s = sendForTranslation_resume oc s"

fun run :: "event list \<Rightarrow> state \<Rightarrow> state" where
  "run [] s = s"
| "run (e # es) s = run es (step e s)"

text \<open>The texts of the final results an event delivers, in order.\<close>

fun finals_of :: "event \<Rightarrow> jsstr list" where
  "finals_of (Result resultIndex results) =
     map transcript (filter isFinal (drop resultIndex results))"
| "finals_of e = []"

text \<open>
  \<open>x || d\<close> for a field \<open>x\<close> that is absent or a string, as a string: used to state
  what the handlers display.
\<close>

definition nonempty_or :: "jsstr option \<Rightarrow> jsstr \<Rightarrow> jsstr" where
  "nonempty_or x d = (case x of None \<Rightarrow> d | Some v \<Rightarrow> if v = [] then d else v)"

text \<open>
  A page for the concrete runs below: recognition and synthesis exist, nothing has been
  captured, the source language is \<open>en\<close>, the target language is \<open>es\<close>, one Spanish
  voice is installed, and the stop and play buttons start disabled. The theorems stated
  for every state do not depend on it.
\<close>

definition example_page :: state where
  "example_page =
     \<lparr>recognition = Some \<lparr>lang = Str [], started = False\<rparr>,
      finalTranscript = [],
      origArea_value = [],
      translatedDiv_textContent = [],
      startBtn_disabled = False,
      stopBtn_disabled = True,
      playBtn_disabled = True,
      sourceLang_value = js ''en'',
      targetLang_value = js ''es'',
      fetches = [],
      speechSynthesis =
        Some \<lparr>voices = [\<lparr>voice_name = js ''Monica'', voice_lang = js ''es-ES''\<rparr>],
              queue = [], calls = []\<rparr>,
      alerts = [],
      console_errors = 0,
      uncaught = []\<rparr>"

text \<open>The same page showing the translation \<open>hola\<close> while \<open>adios\<close> is still being spoken.\<close>

definition speaking_page :: state where
  "speaking_page =
     example_page\<lparr>translatedDiv_textContent := js ''hola'',
       speechSynthesis :=
         Some \<lparr>voices = [\<lparr>voice_name = js ''Monica'', voice_lang = js ''es-ES''\<rparr>],
               queue = [\<lparr>utter_text = js ''adios'', utter_voice = None, utter_rate = 1\<rparr>],
               calls = [Speak \<lparr>utter_text = js ''adios'', utter_voice = None, utter_rate = 1\<rparr>]\<rparr>\<rparr>"

section \<open>What one batch of results and one event do to the transcript\<close>

lemma onresult_loop_eq:
  "onresult_loop i rs (ft, im) =
     (ft @ concat (map (\<lambda>r. transcript r @ js '' '') (filter isFinal (drop i rs))),
      im @ concat (map transcript (filter (\<lambda>r. \<not> isFinal r) (drop i rs))))"
proof (induction i rs "(ft, im)" arbitrary: ft im rule: onresult_loop.induct)
  case (1 i results ft interim)
  show ?case
  proof (cases "i < length results")
    case True
    then have d: "drop i results = results ! i # drop (Suc i) results"
      by (simp add: Cons_nth_drop_Suc)
    show ?thesis
    proof (cases "isFinal (results ! i)")
      case True
      with \<open>i < length results\<close> "1.hyps"(1)[OF \<open>i < length results\<close> refl True] d
      show ?thesis by (simp del: onresult_loop.simps add: onresult_loop.simps[of i])
    next
      case False
      with \<open>i < length results\<close> "1.hyps"(2)[OF \<open>i < length results\<close> refl False] d
      show ?thesis by (simp del: onresult_loop.simps add: onresult_loop.simps[of i])
    qed
  next
    case False
    then show ?thesis by simp
  qed
qed

lemma recognition_onresult_eq:
  "recognition_onresult ri rs s =
     s\<lparr>finalTranscript :=
         finalTranscript s @ concat (map (\<lambda>r. transcript r @ js '' '') (filter isFinal (drop ri rs))),
       origArea_value :=
         trim (finalTranscript s @ concat (map (\<lambda>r. transcript r @ js '' '') (filter isFinal (drop ri rs)))
               @ concat (map transcript (filter (\<lambda>r. \<not> isFinal r) (drop ri rs))))\<rparr>"
  by (simp add: recognition_onresult_def onresult_loop_eq del: onresult_loop.simps)

lemma onresult_interim_eq:
  "onresult_interim ri rs s = concat (map transcript (filter (\<lambda>r. \<not> isFinal r) (drop ri rs)))"
  by (simp add: onresult_interim_def onresult_loop_eq del: onresult_loop.simps)

lemma finalTranscript_step:
  "e \<noteq> StartClick \<Longrightarrow>
     finalTranscript (step e s) = finalTranscript s @ concat (map (\<lambda>t. t @ js '' '') (finals_of e))"
proof (cases e)
  case (Result ri rs)
  then show ?thesis by (simp add: recognition_onresult_eq map_concat comp_def)
next
  case (Settled oc)
  then show ?thesis by (cases oc) (simp_all add: sendForTranslation_resume_def)
next
  case End
  then show ?thesis by (simp add: recognition_onend_def sendForTranslation_begin_def Let_def)
next
  case PlayClick
  then show ?thesis
    by (simp add: playBtn_onclick_def speakText_def Let_def split: option.splits)
next
  case StopClick
  then show ?thesis by (simp add: stopBtn_onclick_def split: option.splits)
qed (simp_all add: recognition_onerror_def)

lemma finalTranscript_run:
  "StartClick \<notin> set es \<Longrightarrow>
     finalTranscript (run es s) =
       finalTranscript s @ concat (map (\<lambda>t. t @ js '' '') (concat (map finals_of es)))"
proof (induction es arbitrary: s)
  case Nil
  then show ?case by simp
next
  case (Cons e es)
  then have "e \<noteq> StartClick" and "StartClick \<notin> set es" by auto
  then show ?case using Cons.IH[of "step e s"] by (simp add: finalTranscript_step)
qed

lemma run_append: "run (es @ fs) s = run fs (run es s)"
  by (induction es arbitrary: s) simp_all

section \<open>The language table (C8)\<close>

lemma mapLangCode_truthy: "truthy (mapLangCode code)"
  by (simp add: mapLangCode_def get_prop_def js_or_def js_def split: option.splits)

text \<open>
  What holds of C8: \<open>en\<close>, \<open>es\<close>, \<open>hi\<close> and \<open>ta\<close> give \<open>en-US\<close>, \<open>es-ES\<close>,
  \<open>hi-IN\<close> and \<open>ta-IN\<close>; \<open>auto\<close> and every other string that is not the name of a
  member of \<open>Object.prototype\<close> give the default \<open>en-US\<close>; and when a recognition
  object exists, the start button's handler sets its \<open>lang\<close> to \<open>mapLangCode\<close> of the
  selected source language.
\<close>

lemma mapLangCode_mapped_codes:
  "mapLangCode (js ''en'') = Str (js ''en-US'')"
  "mapLangCode (js ''es'') = Str (js ''es-ES'')"
  "mapLangCode (js ''hi'') = Str (js ''hi-IN'')"
  "mapLangCode (js ''ta'') = Str (js ''ta-IN'')"
  "mapLangCode (js ''auto'') = Str (js ''en-US'')"
  by (simp_all add: mapLangCode_def get_prop_def js_or_def js_def)

lemma mapLangCode_default:
  assumes "code \<notin> {js ''en'', js ''es'', js ''hi'', js ''ta''}"
    and "code \<notin> set Object_prototype"
  shows "mapLangCode code = Str (js ''en-US'')"
  using assms by (auto simp add: mapLangCode_def get_prop_def js_or_def)

lemma startBtn_onclick_lang:
  assumes "recognition s = Some r"
  shows "map_option lang (recognition (startBtn_onclick s)) =
           Some (mapLangCode (sourceLang_value s))"
  using assms mapLangCode_truthy[of "sourceLang_value s"]
  by (simp add: startBtn_onclick_def Let_def js_or_def)


section \<open>One batch of recognition results (C2)\<close>

text \<open>
  C2, as amended. One run of \<open>onresult\<close> appends to \<open>finalTranscript\<close>, in order, the
  text of every final result from \<open>resultIndex\<close> on, each followed by one space. The
  interim text afterwards is the concatenation, in order, of the texts of all results
  of the batch from \<open>resultIndex\<close> on that are not final (empty when there is none):
  within a batch the texts are joined. The displayed text is the trimmed transcript
  followed by that interim text. The interim text of a batch owes nothing to the batch
  before it: non-final \<open>he\<close> and then, in the next batch, non-final \<open>hello\<close> leave
  \<open>hello\<close>.
\<close>

theorem onresult_batch:
  "finalTranscript (recognition_onresult resultIndex results s) =
     finalTranscript s @
       concat (map (\<lambda>r. transcript r @ js '' '') (filter isFinal (drop resultIndex results))) \<and>
   onresult_interim resultIndex results s =
     concat (map transcript (filter (\<lambda>r. \<not> isFinal r) (drop resultIndex results))) \<and>
   origArea_value (recognition_onresult resultIndex results s) =
     trim (finalTranscript (recognition_onresult resultIndex results s)
           @ onresult_interim resultIndex results s) \<and>
   onresult_interim resultIndex' results' (recognition_onresult resultIndex results s) =
     concat (map transcript (filter (\<lambda>r. \<not> isFinal r) (drop resultIndex' results')))"
  by (simp add: recognition_onresult_eq onresult_interim_eq)

theorem onresult_batch_witness:
  "finalTranscript (recognition_onresult 1
      [\<lparr>transcript = js ''good'', isFinal = True\<rparr>, \<lparr>transcript = js ''morning'', isFinal = True\<rparr>,
       \<lparr>transcript = js ''every'', isFinal = False\<rparr>, \<lparr>transcript = js ''one'', isFinal = False\<rparr>]
      (example_page\<lparr>finalTranscript := js ''good ''\<rparr>)) = js ''good morning '' \<and>
   onresult_interim 1
      [\<lparr>transcript = js ''good'', isFinal = True\<rparr>, \<lparr>transcript = js ''morning'', isFinal = True\<rparr>,
       \<lparr>transcript = js ''every'', isFinal = False\<rparr>, \<lparr>transcript = js ''one'', isFinal = False\<rparr>]
      (example_page\<lparr>finalTranscript := js ''good ''\<rparr>) = js ''everyone'' \<and>
   onresult_interim 0 [\<lparr>transcript = js ''hello'', isFinal = False\<rparr>]
      (recognition_onresult 0 [\<lparr>transcript = js ''he'', isFinal = False\<rparr>] example_page) = js ''hello''"
  using onresult_batch[of 1
      "[\<lparr>transcript = js ''good'', isFinal = True\<rparr>, \<lparr>transcript = js ''morning'', isFinal = True\<rparr>,
       \<lparr>transcript = js ''every'', isFinal = False\<rparr>, \<lparr>transcript = js ''one'', isFinal = False\<rparr>]"
      "example_page\<lparr>finalTranscript := js ''good ''\<rparr>" 0 "[]"]
    onresult_batch[of 0 "[\<lparr>transcript = js ''he'', isFinal = False\<rparr>]" example_page
      0 "[\<lparr>transcript = js ''hello'', isFinal = False\<rparr>]"]
  by (simp add: js_def)

text \<open>
  C2 as stated fails: for a batch of two results that are not final, \<open>he\<close> and \<open>llo\<close>,
  the interim text is \<open>hello\<close>, not the text of the last one.
\<close>

theorem onresult_interim_counterexample:
  "onresult_interim 0
     [\<lparr>transcript = js ''he'', isFinal = False\<rparr>, \<lparr>transcript = js ''llo'', isFinal = False\<rparr>]
     example_page = js ''hello'' \<and>
   onresult_interim 0
     [\<lparr>transcript = js ''he'', isFinal = False\<rparr>, \<lparr>transcript = js ''llo'', isFinal = False\<rparr>]
     example_page \<noteq> js ''llo''"
  by (simp add: onresult_interim_eq js_def)

section \<open>The transcript only grows (C6)\<close>

text \<open>
  C6. Every event other than the click on the start button leaves the previous
  \<open>finalTranscript\<close> as a prefix of the new one, so a transcript that is not empty is
  never emptied by it, and the same holds for any sequence of such events; the click on
  the start button sets \<open>finalTranscript\<close> to the empty string.
\<close>

theorem finalTranscript_append_only:
  "(e \<noteq> StartClick \<longrightarrow> prefix (finalTranscript s) (finalTranscript (step e s))) \<and>
   (e \<noteq> StartClick \<and> finalTranscript s \<noteq> [] \<longrightarrow> finalTranscript (step e s) \<noteq> []) \<and>
   (StartClick \<notin> set es \<longrightarrow> prefix (finalTranscript s) (finalTranscript (run es s))) \<and>
   finalTranscript (step StartClick s) = []"
proof -
  have "finalTranscript (startBtn_onclick s) = []"
    by (simp add: startBtn_onclick_def Let_def split: option.splits)
  then show ?thesis
    by (simp add: finalTranscript_step finalTranscript_run)
qed

theorem finalTranscript_append_only_witness:
  "prefix (js ''good '') (finalTranscript (step (Result 0 [\<lparr>transcript = js ''day'', isFinal = True\<rparr>])
      (example_page\<lparr>finalTranscript := js ''good ''\<rparr>))) \<and>
   finalTranscript (run [Result 0 [\<lparr>transcript = js ''day'', isFinal = True\<rparr>], End, Settled (Failure []), PlayClick, StopClick]
      (example_page\<lparr>finalTranscript := js ''good ''\<rparr>)) = js ''good day '' \<and>
   finalTranscript (step StartClick (example_page\<lparr>finalTranscript := js ''good ''\<rparr>)) = []"
proof -
  note t = finalTranscript_append_only[of "Result 0 [\<lparr>transcript = js ''day'', isFinal = True\<rparr>]"
      "example_page\<lparr>finalTranscript := js ''good ''\<rparr>"
      "[Result 0 [\<lparr>transcript = js ''day'', isFinal = True\<rparr>], End, Settled (Failure []), PlayClick, StopClick]"]
  have e: "Result 0 [\<lparr>transcript = js ''day'', isFinal = True\<rparr>] \<noteq> StartClick"
    "StartClick \<notin> set [Result 0 [\<lparr>transcript = js ''day'', isFinal = True\<rparr>], End, Settled (Failure []), PlayClick, StopClick]"
    "finalTranscript (example_page\<lparr>finalTranscript := js ''good ''\<rparr>) = js ''good ''"
    by simp_all
  have r: "finalTranscript (run [Result 0 [\<lparr>transcript = js ''day'', isFinal = True\<rparr>], End, Settled (Failure []), PlayClick, StopClick]
      (example_page\<lparr>finalTranscript := js ''good ''\<rparr>)) = js ''good day ''"
    using finalTranscript_run[OF e(2), of "example_page\<lparr>finalTranscript := js ''good ''\<rparr>"]
    by (simp add: js_def del: run.simps)
  from t e r show ?thesis by simp
qed

section \<open>Two final segments (C5)\<close>

lemma origArea_value_last_result:
  "origArea_value (run (es @ [Result ri rs]) s) =
     trim (finalTranscript (run (es @ [Result ri rs]) s)
           @ concat (map transcript (filter (\<lambda>r. \<not> isFinal r) (drop ri rs))))"
  by (simp add: run_append recognition_onresult_eq)

text \<open>
  C5, as amended. Take any sequence of events after a reset (no click on the start
  button among them) whose final results are, in order, \<open>hello\<close> and \<open>world\<close>,
  whatever results that are not final come before, between or after them. Then
  \<open>finalTranscript\<close> is \<open>hello world\<close> with one trailing space and trims to
  \<open>hello world\<close>. When the last event is a batch of results, the displayed text is the
  trimmed concatenation of that transcript and the batch's interim text; it is
  \<open>hello world\<close> when the batch has no result that is not final.
\<close>

theorem hello_world_transcript:
  assumes "finalTranscript s = []"
    and "StartClick \<notin> set es"
    and "concat (map finals_of es) = [js ''hello'', js ''world'']"
  shows "finalTranscript (run es s) = js ''hello world '' \<and>
         trim (finalTranscript (run es s)) = js ''hello world'' \<and>
         (\<forall>resultIndex results.
            es \<noteq> [] \<and> last es = Result resultIndex results \<longrightarrow>
              origArea_value (run es s) =
                trim (js ''hello world '' @
                      concat (map transcript (filter (\<lambda>r. \<not> isFinal r) (drop resultIndex results)))) \<and>
              (filter (\<lambda>r. \<not> isFinal r) (drop resultIndex results) = [] \<longrightarrow>
                 origArea_value (run es s) = js ''hello world''))"
proof -
  have ft: "finalTranscript (run es s) = js ''hello world ''"
    using assms by (simp add: finalTranscript_run js_def)
  have tr: "trim (js ''hello world '') = js ''hello world''"
    by (simp add: trim_def js_def is_space_def)
  have disp: "origArea_value (run es s) =
                trim (js ''hello world '' @
                      concat (map transcript (filter (\<lambda>r. \<not> isFinal r) (drop ri rs))))"
    if "es \<noteq> []" "last es = Result ri rs" for ri rs
  proof -
    from that have "es = butlast es @ [Result ri rs]"
      by (metis append_butlast_last_id)
    then show ?thesis
      using origArea_value_last_result[of "butlast es" ri rs s] ft by simp
  qed
  show ?thesis using ft tr disp by simp
qed

theorem hello_world_transcript_witness:
  "finalTranscript (run
      [Result 0 [\<lparr>transcript = js ''he'', isFinal = False\<rparr>],
       Result 0 [\<lparr>transcript = js ''hello'', isFinal = True\<rparr>],
       Result 1 [\<lparr>transcript = js ''hello'', isFinal = True\<rparr>, \<lparr>transcript = js ''wor'', isFinal = False\<rparr>],
       Result 1 [\<lparr>transcript = js ''hello'', isFinal = True\<rparr>, \<lparr>transcript = js ''world'', isFinal = True\<rparr>]]
      example_page) = js ''hello world '' \<and>
   origArea_value (run
      [Result 0 [\<lparr>transcript = js ''he'', isFinal = False\<rparr>],
       Result 0 [\<lparr>transcript = js ''hello'', isFinal = True\<rparr>],
       Result 1 [\<lparr>transcript = js ''hello'', isFinal = True\<rparr>, \<lparr>transcript = js ''wor'', isFinal = False\<rparr>],
       Result 1 [\<lparr>transcript = js ''hello'', isFinal = True\<rparr>, \<lparr>transcript = js ''world'', isFinal = True\<rparr>]]
      example_page) = js ''hello world''"
proof -
  let ?es = "[Result 0 [\<lparr>transcript = js ''he'', isFinal = False\<rparr>],
       Result 0 [\<lparr>transcript = js ''hello'', isFinal = True\<rparr>],
       Result 1 [\<lparr>transcript = js ''hello'', isFinal = True\<rparr>, \<lparr>transcript = js ''wor'', isFinal = False\<rparr>],
       Result 1 [\<lparr>transcript = js ''hello'', isFinal = True\<rparr>, \<lparr>transcript = js ''world'', isFinal = True\<rparr>]]"
  have a: "finalTranscript example_page = []" by (simp add: example_page_def)
  have b: "StartClick \<notin> set ?es" by simp
  have c: "concat (map finals_of ?es) = [js ''hello'', js ''world'']" by simp
  have d: "?es \<noteq> [] \<and> last ?es =
      Result 1 [\<lparr>transcript = js ''hello'', isFinal = True\<rparr>, \<lparr>transcript = js ''world'', isFinal = True\<rparr>]"
    by simp
  have e: "filter (\<lambda>r. \<not> isFinal r)
      (drop 1 [\<lparr>transcript = js ''hello'', isFinal = True\<rparr>, \<lparr>transcript = js ''world'', isFinal = True\<rparr>]) = []"
    by simp
  from hello_world_transcript[OF a b c] d e show ?thesis by blast
qed

text \<open>
  C5 as stated fails for the displayed text: when the batch that delivers \<open>world\<close> as
  final also carries the next result \<open>again\<close>, not yet final, the final segments are
  \<open>hello\<close> and \<open>world\<close> and \<open>finalTranscript\<close> is as claimed, but the displayed text
  is \<open>hello world again\<close>.
\<close>

theorem displayed_text_counterexample:
  "concat (map finals_of
      [Result 0 [\<lparr>transcript = js ''hello'', isFinal = True\<rparr>],
       Result 1 [\<lparr>transcript = js ''hello'', isFinal = True\<rparr>, \<lparr>transcript = js ''world'', isFinal = True\<rparr>,
                 \<lparr>transcript = js ''again'', isFinal = False\<rparr>]])
     = [js ''hello'', js ''world''] \<and>
   finalTranscript (run
      [StartClick,
       Result 0 [\<lparr>transcript = js ''hello'', isFinal = True\<rparr>],
       Result 1 [\<lparr>transcript = js ''hello'', isFinal = True\<rparr>, \<lparr>transcript = js ''world'', isFinal = True\<rparr>,
                 \<lparr>transcript = js ''again'', isFinal = False\<rparr>]]
      example_page) = js ''hello world '' \<and>
   origArea_value (run
      [StartClick,
       Result 0 [\<lparr>transcript = js ''hello'', isFinal = True\<rparr>],
       Result 1 [\<lparr>transcript = js ''hello'', isFinal = True\<rparr>, \<lparr>transcript = js ''world'', isFinal = True\<rparr>,
                 \<lparr>transcript = js ''again'', isFinal = False\<rparr>]]
      example_page) = js ''hello world again'' \<and>
   origArea_value (run
      [StartClick,
       Result 0 [\<lparr>transcript = js ''hello'', isFinal = True\<rparr>],
       Result 1 [\<lparr>transcript = js ''hello'', isFinal = True\<rparr>, \<lparr>transcript = js ''world'', isFinal = True\<rparr>,
                 \<lparr>transcript = js ''again'', isFinal = False\<rparr>]]
      example_page) \<noteq> js ''hello world''"
  by (simp add: recognition_onresult_eq startBtn_onclick_def example_page_def Let_def
      trim_def is_space_def js_def)

section \<open>The end of a capture (C1)\<close>

text \<open>
  C1. When \<open>onend\<close> runs, it calls \<open>fetch\<close> exactly once if the trimmed text of the
  transcript area is not empty, with that trimmed text and the source and target
  languages selected at that moment, and not at all if the trimmed text is empty; the
  rest of \<open>sendForTranslation\<close>, run when the response settles, sends nothing more. It
  also enables the start button and disables the stop button.
\<close>

theorem onend_requests:
  "fetches (recognition_onend s) =
     fetches s @
       (if trim (origArea_value s) = [] then []
        else [\<lparr>req_text = trim (origArea_value s),
               req_source = sourceLang_value s, req_target = targetLang_value s\<rparr>]) \<and>
   fetches (step End s) =
     fetches s @
       (if trim (origArea_value s) = [] then []
        else [\<lparr>req_text = trim (origArea_value s),
               req_source = sourceLang_value s, req_target = targetLang_value s\<rparr>]) \<and>
   fetches (sendForTranslation_resume oc (recognition_onend s)) = fetches (recognition_onend s) \<and>
   startBtn_disabled (recognition_onend s) = False \<and>
   stopBtn_disabled (recognition_onend s) = True"
proof -
  have r: "fetches (sendForTranslation_resume oc t) = fetches t" for t
    by (cases oc) (simp_all add: sendForTranslation_resume_def)
  show ?thesis
    by (simp add: r recognition_onend_def sendForTranslation_begin_def Let_def)
qed

theorem onend_requests_witness:
  "trim (origArea_value (example_page\<lparr>origArea_value := js ''  ''\<rparr>)) = [] \<and>
   fetches (recognition_onend (example_page\<lparr>origArea_value := js ''  ''\<rparr>)) = [] \<and>
   trim (origArea_value (example_page\<lparr>origArea_value := js ''good day '', targetLang_value := js ''ta''\<rparr>))
     = js ''good day'' \<and>
   fetches (recognition_onend (example_page\<lparr>origArea_value := js ''good day '', targetLang_value := js ''ta''\<rparr>))
     = [\<lparr>req_text = js ''good day'', req_source = js ''en'', req_target = js ''ta''\<rparr>]"
  using onend_requests[of "example_page\<lparr>origArea_value := js ''  ''\<rparr>" "Failure []"]
    onend_requests[of "example_page\<lparr>origArea_value := js ''good day '', targetLang_value := js ''ta''\<rparr>" "Failure []"]
  by (simp add: example_page_def trim_def is_space_def js_def)

section \<open>The translation response (C4, C10, C7)\<close>

text \<open>
  C4. For every parsed response: when its \<open>error\<close> field is absent or empty, the
  translation area shows the \<open>translated\<close> field, or \<open>(no translation)\<close> when that
  field is absent or empty, and the play button is enabled; when its \<open>error\<close> field is
  a string that is not empty, the area shows \<open>Error: \<close> followed by the \<open>detail\<close>
  field, or by the \<open>error\<close> field when \<open>detail\<close> is absent or empty, and the play
  button, disabled when the call began, is not touched.
\<close>

theorem translation_response:
  "(resp_error j = None \<or> resp_error j = Some [] \<longrightarrow>
      translatedDiv_textContent (sendForTranslation txt (Response j) s) =
        nonempty_or (resp_translated j) (js ''(no translation)'') \<and>
      \<not> playBtn_disabled (sendForTranslation txt (Response j) s) \<and>
      \<not> playBtn_disabled (sendForTranslation_resume (Response j) s)) \<and>
   (\<forall>e. resp_error j = Some e \<and> e \<noteq> [] \<longrightarrow>
      translatedDiv_textContent (sendForTranslation txt (Response j) s) =
        js ''Error: '' @ nonempty_or (resp_detail j) e \<and>
      playBtn_disabled (sendForTranslation txt (Response j) s) \<and>
      playBtn_disabled (sendForTranslation_resume (Response j) s) = playBtn_disabled s)"
  by (auto simp add: sendForTranslation_def sendForTranslation_resume_def
      sendForTranslation_begin_def field_def js_or_def to_string_def nonempty_or_def
      split: option.splits)

theorem translation_response_witness:
  "translatedDiv_textContent (sendForTranslation (js ''hello'')
      (Response \<lparr>resp_error = None, resp_detail = None, resp_translated = Some (js ''hola'')\<rparr>) example_page)
     = js ''hola'' \<and>
   \<not> playBtn_disabled (sendForTranslation (js ''hello'')
      (Response \<lparr>resp_error = None, resp_detail = None, resp_translated = Some (js ''hola'')\<rparr>) example_page) \<and>
   translatedDiv_textContent (sendForTranslation (js ''hello'')
      (Response \<lparr>resp_error = None, resp_detail = None, resp_translated = Some []\<rparr>) example_page)
     = js ''(no translation)'' \<and>
   translatedDiv_textContent (sendForTranslation (js ''hello'')
      (Response \<lparr>resp_error = Some (js ''E''), resp_detail = Some (js ''bad''), resp_translated = None\<rparr>) example_page)
     = js ''Error: bad'' \<and>
   playBtn_disabled (sendForTranslation (js ''hello'')
      (Response \<lparr>resp_error = Some (js ''E''), resp_detail = Some (js ''bad''), resp_translated = None\<rparr>) example_page) \<and>
   translatedDiv_textContent (sendForTranslation (js ''hello'')
      (Response \<lparr>resp_error = Some (js ''E''), resp_detail = None, resp_translated = None\<rparr>) example_page)
     = js ''Error: E''"
  using translation_response[of "\<lparr>resp_error = None, resp_detail = None, resp_translated = Some (js ''hola'')\<rparr>"
      "js ''hello''" example_page]
    translation_response[of "\<lparr>resp_error = None, resp_detail = None, resp_translated = Some []\<rparr>"
      "js ''hello''" example_page]
    translation_response[of "\<lparr>resp_error = Some (js ''E''), resp_detail = Some (js ''bad''), resp_translated = None\<rparr>"
      "js ''hello''" example_page]
    translation_response[of "\<lparr>resp_error = Some (js ''E''), resp_detail = None, resp_translated = None\<rparr>"
      "js ''hello''" example_page]
  by (simp add: nonempty_or_def js_def)

text \<open>
  C10. A response whose \<open>error\<close> field is a string that is not empty takes the error
  branch whatever its \<open>translated\<close> field holds: the state after it is the same for
  every value of that field, and the play button stays disabled. A response whose
  \<open>error\<close> field is the empty string is a success.
\<close>

theorem error_field_decides:
  "(\<forall>e. resp_error j = Some e \<and> e \<noteq> [] \<longrightarrow>
      sendForTranslation_resume (Response (j\<lparr>resp_translated := t\<rparr>)) s =
        s\<lparr>translatedDiv_textContent := js ''Error: '' @ nonempty_or (resp_detail j) e\<rparr> \<and>
      playBtn_disabled (sendForTranslation txt (Response (j\<lparr>resp_translated := t\<rparr>)) s)) \<and>
   (resp_error j = Some [] \<longrightarrow>
      sendForTranslation_resume (Response j) s =
        s\<lparr>translatedDiv_textContent := nonempty_or (resp_translated j) (js ''(no translation)''),
          playBtn_disabled := False\<rparr>)"
  by (auto simp add: sendForTranslation_def sendForTranslation_resume_def
      sendForTranslation_begin_def field_def js_or_def to_string_def nonempty_or_def
      split: option.splits)

theorem error_field_decides_witness:
  "translatedDiv_textContent (sendForTranslation (js ''hello'')
      (Response \<lparr>resp_error = Some (js ''E''), resp_detail = None, resp_translated = Some (js ''hola'')\<rparr>) example_page)
     = js ''Error: E'' \<and>
   playBtn_disabled (sendForTranslation (js ''hello'')
      (Response \<lparr>resp_error = Some (js ''E''), resp_detail = None, resp_translated = Some (js ''hola'')\<rparr>) example_page) \<and>
   translatedDiv_textContent (sendForTranslation (js ''hello'')
      (Response \<lparr>resp_error = Some [], resp_detail = Some (js ''bad''), resp_translated = Some (js ''hola'')\<rparr>) example_page)
     = js ''hola'' \<and>
   \<not> playBtn_disabled (sendForTranslation (js ''hello'')
      (Response \<lparr>resp_error = Some [], resp_detail = Some (js ''bad''), resp_translated = Some (js ''hola'')\<rparr>) example_page)"
  using error_field_decides[of "\<lparr>resp_error = Some (js ''E''), resp_detail = None, resp_translated = None\<rparr>"
      "Some (js ''hola'')" "sendForTranslation_begin (js ''hello'') example_page" "js ''hello''"]
    error_field_decides[of "\<lparr>resp_error = Some (js ''E''), resp_detail = None, resp_translated = None\<rparr>"
      "Some (js ''hola'')" example_page "js ''hello''"]
    error_field_decides[of "\<lparr>resp_error = Some [], resp_detail = Some (js ''bad''), resp_translated = Some (js ''hola'')\<rparr>"
      None "sendForTranslation_begin (js ''hello'') example_page" "js ''hello''"]
  by (simp add: sendForTranslation_def nonempty_or_def js_def)

text \<open>
  C7. When the call ends in an exception, the translation area shows \<open>Network error: \<close>
  followed by the exception's text, which differs from every message of the error
  branch of a response, and the play button, disabled when the call began, is not
  touched.
\<close>

theorem transport_failure:
  "translatedDiv_textContent (sendForTranslation txt (Failure err) s) = js ''Network error: '' @ err \<and>
   playBtn_disabled (sendForTranslation txt (Failure err) s) \<and>
   playBtn_disabled (sendForTranslation_resume (Failure err) s) = playBtn_disabled s \<and>
   (\<forall>j s'. truthy (field (resp_error j)) \<longrightarrow>
      translatedDiv_textContent (sendForTranslation txt (Failure err) s) \<noteq>
        translatedDiv_textContent (sendForTranslation_resume (Response j) s'))"
  by (simp add: sendForTranslation_def sendForTranslation_resume_def
      sendForTranslation_begin_def js_def)

theorem transport_failure_witness:
  "translatedDiv_textContent (sendForTranslation (js ''hello'') (Failure (js ''TypeError: Failed to fetch'')) example_page)
     = js ''Network error: TypeError: Failed to fetch'' \<and>
   playBtn_disabled (sendForTranslation (js ''hello'') (Failure (js ''TypeError: Failed to fetch'')) example_page) \<and>
   truthy (field (resp_error \<lparr>resp_error = Some (js ''TypeError: Failed to fetch''), resp_detail = None, resp_translated = None\<rparr>)) \<and>
   translatedDiv_textContent (sendForTranslation (js ''hello'') (Failure (js ''TypeError: Failed to fetch'')) example_page)
     \<noteq> translatedDiv_textContent (sendForTranslation_resume
          (Response \<lparr>resp_error = Some (js ''TypeError: Failed to fetch''), resp_detail = None, resp_translated = None\<rparr>)
          example_page)"
proof -
  note t = transport_failure[of "js ''hello''" "js ''TypeError: Failed to fetch''" example_page]
  have h: "truthy (field (resp_error \<lparr>resp_error = Some (js ''TypeError: Failed to fetch''), resp_detail = None, resp_translated = None\<rparr>))"
    by (simp add: field_def js_def)
  from t h have "translatedDiv_textContent (sendForTranslation (js ''hello'') (Failure (js ''TypeError: Failed to fetch'')) example_page)
     \<noteq> translatedDiv_textContent (sendForTranslation_resume
          (Response \<lparr>resp_error = Some (js ''TypeError: Failed to fetch''), resp_detail = None, resp_translated = None\<rparr>)
          example_page)" by blast
  moreover from t have "translatedDiv_textContent (sendForTranslation (js ''hello'') (Failure (js ''TypeError: Failed to fetch'')) example_page)
     = js ''Network error: TypeError: Failed to fetch''" by (simp add: js_def)
  moreover from t have "playBtn_disabled (sendForTranslation (js ''hello'') (Failure (js ''TypeError: Failed to fetch'')) example_page)"
    by blast
  ultimately show ?thesis using h by blast
qed

section \<open>Playback (C9)\<close>

lemma speakText_Some:
  assumes "speechSynthesis s = Some sy"
  shows "\<exists>u. utter_text u = txt \<and> utter_rate u = 1 \<and>
         speechSynthesis (speakText txt lng s) =
           Some (sy\<lparr>queue := [u], calls := calls sy @ [Cancel, Speak u]\<rparr>)"
proof -
  define v where
    "v = (if voices sy \<noteq> []
          then find (\<lambda>x. voice_lang x \<noteq> [] \<and>
                         prefix (to_string (mapLocaleFromCode lng)) (voice_lang x)) (voices sy)
          else None)"
  have "speechSynthesis (speakText txt lng s) =
       Some (sy\<lparr>queue := [\<lparr>utter_text = txt, utter_voice = v, utter_rate = 1\<rparr>],
               calls := calls sy @ [Cancel, Speak \<lparr>utter_text = txt, utter_voice = v, utter_rate = 1\<rparr>]\<rparr>)"
    using assms by (simp add: speakText_def Let_def v_def split: option.splits)
  then show ?thesis
    by (intro exI[of _ "\<lparr>utter_text = txt, utter_voice = v, utter_rate = 1\<rparr>"]) simp
qed

lemma playBtn_onclick_text:
  "translatedDiv_textContent (playBtn_onclick s) = translatedDiv_textContent s"
  by (simp add: playBtn_onclick_def speakText_def Let_def split: option.splits)

text \<open>
  C9. When synthesis exists and the translation area is not empty, the play button's
  handler calls \<open>cancel\<close> and then \<open>speak\<close> with an utterance of the displayed text:
  whatever was queued or being spoken before is dropped, and the queue holds the new
  utterance alone. Clicked twice in a row, the second click cancels the utterance of
  the first before it speaks its own, so the queue again holds one utterance.
\<close>

theorem playback_cancels_first:
  assumes "speechSynthesis s = Some sy"
    and "translatedDiv_textContent s \<noteq> []"
  shows "\<exists>u1 u2 sy1 sy2.
           utter_text u1 = translatedDiv_textContent s \<and>
           utter_text u2 = translatedDiv_textContent s \<and>
           speechSynthesis (playBtn_onclick s) = Some sy1 \<and>
           calls sy1 = calls sy @ [Cancel, Speak u1] \<and>
           queue sy1 = [u1] \<and>
           speechSynthesis (playBtn_onclick (playBtn_onclick s)) = Some sy2 \<and>
           calls sy2 = calls sy @ [Cancel, Speak u1, Cancel, Speak u2] \<and>
           queue sy2 = [u2]"
proof -
  let ?t = "translatedDiv_textContent s"
  have p1: "playBtn_onclick s = speakText ?t (targetLang_value s) s"
    using assms(2) by (simp add: playBtn_onclick_def Let_def)
  from speakText_Some[OF assms(1), of ?t "targetLang_value s"] obtain u1 where
    u1: "utter_text u1 = ?t"
      "speechSynthesis (speakText ?t (targetLang_value s) s) =
         Some (sy\<lparr>queue := [u1], calls := calls sy @ [Cancel, Speak u1]\<rparr>)"
    by blast
  let ?s1 = "playBtn_onclick s"
  let ?sy1 = "sy\<lparr>queue := [u1], calls := calls sy @ [Cancel, Speak u1]\<rparr>"
  have s1: "speechSynthesis ?s1 = Some ?sy1" using p1 u1(2) by simp
  have t1: "translatedDiv_textContent ?s1 = ?t" by (rule playBtn_onclick_text)
  have p2: "playBtn_onclick ?s1 = speakText ?t (targetLang_value ?s1) ?s1"
    using assms(2) t1 by (simp add: playBtn_onclick_def[of ?s1] Let_def)
  from speakText_Some[OF s1, of ?t "targetLang_value ?s1"] obtain u2 where
    u2: "utter_text u2 = ?t"
      "speechSynthesis (speakText ?t (targetLang_value ?s1) ?s1) =
         Some (?sy1\<lparr>queue := [u2], calls := calls ?sy1 @ [Cancel, Speak u2]\<rparr>)"
    by blast
  let ?sy2 = "?sy1\<lparr>queue := [u2], calls := calls ?sy1 @ [Cancel, Speak u2]\<rparr>"
  have s2: "speechSynthesis (playBtn_onclick ?s1) = Some ?sy2" using p2 u2(2) by simp
  have "calls ?sy1 = calls sy @ [Cancel, Speak u1]" "queue ?sy1 = [u1]"
    "calls ?sy2 = calls sy @ [Cancel, Speak u1, Cancel, Speak u2]" "queue ?sy2 = [u2]"
    by simp_all
  with u1(1) u2(1) s1 s2 show ?thesis by blast
qed

theorem playback_cancels_first_witness:
  "translatedDiv_textContent speaking_page \<noteq> [] \<and>
   (\<exists>sy. speechSynthesis speaking_page = Some sy \<and> length (queue sy) = 1) \<and>
   (\<exists>sy1 u1. speechSynthesis (playBtn_onclick speaking_page) = Some sy1 \<and> queue sy1 = [u1] \<and>
       utter_text u1 = js ''hola'') \<and>
   (\<exists>sy2 u2. speechSynthesis (playBtn_onclick (playBtn_onclick speaking_page)) = Some sy2 \<and>
       queue sy2 = [u2] \<and> utter_text u2 = js ''hola'')"
proof -
  have a: "speechSynthesis speaking_page =
      Some \<lparr>voices = [\<lparr>voice_name = js ''Monica'', voice_lang = js ''es-ES''\<rparr>],
               queue = [\<lparr>utter_text = js ''adios'', utter_voice = None, utter_rate = 1\<rparr>],
               calls = [Speak \<lparr>utter_text = js ''adios'', utter_voice = None, utter_rate = 1\<rparr>]\<rparr>"
    by (simp add: speaking_page_def)
  have b: "translatedDiv_textContent speaking_page = js ''hola''"
    by (simp add: speaking_page_def)
  have c: "translatedDiv_textContent speaking_page \<noteq> []"
    by (simp add: b js_def)
  from playback_cancels_first[OF a c] b a c show ?thesis
    by auto
qed

section \<open>The play button across sessions (C3)\<close>

text \<open>
  What holds of C3: \<open>sendForTranslation\<close> begins by disabling the play button and
  showing the placeholder, and a disabled play button stays disabled through every
  event except a response without error. The start button's handler shows the same
  placeholder but does not touch the play button.
\<close>

lemma playBtn_disabled_step:
  "playBtn_disabled s \<Longrightarrow>
     (\<forall>j. e = Settled (Response j) \<longrightarrow> truthy (field (resp_error j))) \<Longrightarrow>
     playBtn_disabled (step e s)"
proof (cases e)
  case (Settled oc)
  assume "playBtn_disabled s" "\<forall>j. e = Settled (Response j) \<longrightarrow> truthy (field (resp_error j))"
  with Settled show ?thesis by (cases oc) (simp_all add: sendForTranslation_resume_def)
qed (simp_all add: startBtn_onclick_def stopBtn_onclick_def playBtn_onclick_def speakText_def
    recognition_onresult_eq recognition_onerror_def recognition_onend_def
    sendForTranslation_begin_def Let_def split: option.splits)

lemma playBtn_disabled_run:
  "playBtn_disabled s \<Longrightarrow>
     (\<forall>j. Settled (Response j) \<in> set es \<longrightarrow> truthy (field (resp_error j))) \<Longrightarrow>
     playBtn_disabled (run es s)"
proof (induction es arbitrary: s)
  case Nil
  then show ?case by simp
next
  case (Cons e es)
  from Cons.prems have "playBtn_disabled (step e s)"
    by (intro playBtn_disabled_step) auto
  with Cons show ?case by simp
qed

lemma sendForTranslation_begin_placeholder:
  "playBtn_disabled (sendForTranslation_begin txt s) \<and>
   translatedDiv_textContent (sendForTranslation_begin txt s) = js ''Translating...''"
  by (simp add: sendForTranslation_begin_def)

lemma startBtn_onclick_playBtn:
  "playBtn_disabled (startBtn_onclick s) = playBtn_disabled s \<and>
   translatedDiv_textContent (startBtn_onclick s) = js ''Translating...''"
  by (simp add: startBtn_onclick_def Let_def split: option.splits)

text \<open>
  C3 fails on the code at the start of a second session. After one complete session
  (start, the final result \<open>hello\<close>, end, the response \<open>hola\<close>) the play button is
  enabled; the click that starts the next session shows the placeholder and leaves the
  button enabled, and a click on it then speaks the placeholder.
\<close>

theorem startCapture_leaves_playback_enabled:
  "playBtn_disabled (run
      [StartClick, Result 0 [\<lparr>transcript = js ''hello'', isFinal = True\<rparr>], End,
       Settled (Response \<lparr>resp_error = None, resp_detail = None, resp_translated = Some (js ''hola'')\<rparr>)]
      example_page) = False \<and>
   playBtn_disabled (run
      [StartClick, Result 0 [\<lparr>transcript = js ''hello'', isFinal = True\<rparr>], End,
       Settled (Response \<lparr>resp_error = None, resp_detail = None, resp_translated = Some (js ''hola'')\<rparr>),
       StartClick]
      example_page) = False \<and>
   translatedDiv_textContent (run
      [StartClick, Result 0 [\<lparr>transcript = js ''hello'', isFinal = True\<rparr>], End,
       Settled (Response \<lparr>resp_error = None, resp_detail = None, resp_translated = Some (js ''hola'')\<rparr>),
       StartClick]
      example_page) = js ''Translating...'' \<and>
   map_option (map utter_text \<circ> queue) (speechSynthesis (run
      [StartClick, Result 0 [\<lparr>transcript = js ''hello'', isFinal = True\<rparr>], End,
       Settled (Response \<lparr>resp_error = None, resp_detail = None, resp_translated = Some (js ''hola'')\<rparr>),
       StartClick, PlayClick]
      example_page)) = Some [js ''Translating...'']"
  by (simp add: recognition_onresult_eq startBtn_onclick_def recognition_onend_def
      sendForTranslation_begin_def sendForTranslation_resume_def playBtn_onclick_def
      speakText_def example_page_def Let_def field_def js_or_def to_string_def
      mapLangCode_def mapLocaleFromCode_def get_prop_def
      trim_def is_space_def js_def)

end
